theory Spec2Isabelle
  imports Main
begin

section \<open>Values exchanged with the backend (api.ts)\<close>

text \<open>
  The bodies of requests and responses are JSON. TypeScript's interfaces are erased
  at run time and \<^verbatim>\<open>response.data\<close> has type \<^verbatim>\<open>any\<close>, so what the client
  functions read and return is a JSON value, whatever the declared return type says.
  Numbers are kept as integers: the client only ever tests a number for being zero.
  An object is the list of its members in the order of the text; a key written twice
  has the value written last, as \<^verbatim>\<open>JSON.parse\<close> has it.
\<close>

datatype json =
    JNull
  | JBool bool
  | JNum int
  | JStr string
  | JArr "json list"
  | JObj "(string \<times> json) list"

text \<open>JavaScript's truthiness, the test behind \<^verbatim>\<open>!x\<close>.\<close>

fun truthy :: "json \<Rightarrow> bool" where
  "truthy JNull = False"
| "truthy (JBool b) = b"
| "truthy (JNum n) = (n \<noteq> 0)"
| "truthy (JStr s) = (s \<noteq> [])"
| "truthy (JArr xs) = True"
| "truthy (JObj kvs) = True"

text \<open>
  Reading the property \<^verbatim>\<open>x.k\<close> of a non-null value, for a key that is no built-in
  property (\<^verbatim>\<open>item\<close> and \<^verbatim>\<open>recipe\<close> are the two keys read): \<open>None\<close> is
  \<^verbatim>\<open>undefined\<close>.
\<close>

fun get_prop :: "json \<Rightarrow> string \<Rightarrow> json option" where
  "get_prop (JObj kvs) k = map_of (rev kvs) k"
| "get_prop v k = None"

text \<open>\<^verbatim>\<open>!v\<close> for a value that may be \<^verbatim>\<open>undefined\<close>.\<close>

fun falsy_prop :: "json option \<Rightarrow> bool" where
  "falsy_prop None = True"
| "falsy_prop (Some v) = (\<not> truthy v)"

text \<open>
  The interface \<^verbatim>\<open>Ingredient\<close>: \<^verbatim>\<open>_id\<close>, \<^verbatim>\<open>name\<close>, the two timestamps and the
  optional \<^verbatim>\<open>__v\<close>. The component receives its catalog with this type.
\<close>

record ingredient =
  ing_id :: string
  ing_name :: string
  createdAt :: string
  updatedAt :: string
  ing_v :: "int option"

text \<open>
  What a promise is rejected with. \<open>Error m\<close> is an \<^verbatim>\<open>Error\<close> object with message
  \<open>m\<close>, as built by \<^verbatim>\<open>new Error(m)\<close>; \<open>Other m x\<close> is any other thrown value \<open>x\<close>,
  with its \<^verbatim>\<open>message\<close> property when it has one.
\<close>

datatype 'e thrown = Error string | Other "string option" 'e

fun message :: "'e thrown \<Rightarrow> string option" where
  "message (Error m) = Some m"
| "message (Other m x) = m"

subsection \<open>The axios instance\<close>

datatype http_method = GET | POST

record request =
  req_method :: http_method
  req_baseURL :: string
  req_url :: string
  req_headers :: "(string \<times> string) list"
  req_data :: "json option"

definition API_BASE_URL :: string where
  "API_BASE_URL = ''https://recipe-generator-backend-vqb7.onrender.com/api/''"

definition api_get :: "string \<Rightarrow> request" where
  "api_get path =
     \<lparr>req_method = GET, req_baseURL = API_BASE_URL, req_url = path,
      req_headers = [(''Content-Type'', ''application/json'')], req_data = None\<rparr>"

definition api_post :: "string \<Rightarrow> json \<Rightarrow> request" where
  "api_post path body =
     \<lparr>req_method = POST, req_baseURL = API_BASE_URL, req_url = path,
      req_headers = [(''Content-Type'', ''application/json'')], req_data = Some body\<rparr>"

text \<open>
  The network: every request is answered by a rejection or by the body of a response
  with a successful status (axios rejects the others).
\<close>

type_synonym 'e transport = "request \<Rightarrow> 'e thrown + json"

subsection \<open>Observable effects\<close>

datatype 'e event =
    SetError "string option"
  | SetIsGenerating bool
  | ConsoleLog string
  | ConsoleLogNames string "string list"
  | ConsoleWarn string
  | ConsoleError string "'e thrown"
  | Request request
  | OnRecipeGenerated json

fun requests :: "'e event list \<Rightarrow> request list" where
  "requests [] = []"
| "requests (Request r # es) = r # requests es"
| "requests (e # es) = requests es"

fun warnings :: "'e event list \<Rightarrow> string list" where
  "warnings [] = []"
| "warnings (ConsoleWarn w # es) = w # warnings es"
| "warnings (e # es) = warnings es"

fun delivered :: "'e event list \<Rightarrow> json list" where
  "delivered [] = []"
| "delivered (OnRecipeGenerated r # es) = r # delivered es"
| "delivered (e # es) = delivered es"

text \<open>\<^verbatim>\<open>Array.prototype.join\<close>.\<close>

fun join :: "string \<Rightarrow> string list \<Rightarrow> string" where
  "join sep [] = []"
| "join sep [x] = x"
| "join sep (x # y # ys) = x @ sep @ join sep (y # ys)"

definition dquote :: string where
  "dquote = [CHR 0x22]"

section \<open>The service client (api.ts)\<close>

text \<open>
  Each function is given the network and returns what it did (its log lines and its
  request, in order) and how its promise settled: \<open>Inl\<close> the value it throws,
  \<open>Inr\<close> the value it returns.
\<close>

definition fetchIngredients :: "'e transport \<Rightarrow> 'e event list \<times> ('e thrown + json)" where
  "fetchIngredients net =
     (let req = api_get ''/items'';
          pre = [ConsoleLog ''Fetching ingredients from API...'', Request req]
      in case net req of
           Inr body \<Rightarrow> (pre, Inr body)
         | Inl err \<Rightarrow> (pre @ [ConsoleError ''Error fetching ingredients:'' err], Inl err))"

definition fetchRecipeHistory :: "'e transport \<Rightarrow> 'e event list \<times> ('e thrown + json)" where
  "fetchRecipeHistory net =
     (let req = api_get ''/recipes/history'';
          pre = [ConsoleLog ''Fetching recipe history from API...'', Request req]
      in case net req of
           Inr body \<Rightarrow> (pre, Inr body)
         | Inl err \<Rightarrow> (pre @ [ConsoleError ''Error fetching recipe history:'' err], Inl err))"

text \<open>
  The body of a \<^verbatim>\<open>try\<close> after its \<^verbatim>\<open>await\<close>: the check of the envelope, the
  nested field returned, and the \<^verbatim>\<open>catch\<close> that logs and rethrows whatever was
  thrown, by the network or by the check.
\<close>

definition unwrap :: "string \<Rightarrow> string \<Rightarrow> json \<Rightarrow> 'e thrown + json" where
  "unwrap field msg body =
     (if \<not> truthy body then Inl (Error msg)
      else case get_prop body field of
             None \<Rightarrow> Inl (Error msg)
           | Some v \<Rightarrow> if \<not> truthy v then Inl (Error msg) else Inr v)"

definition addIngredient_request :: "string \<Rightarrow> request" where
  "addIngredient_request ingredientName =
     api_post ''/items/add'' (JObj [(''item'', JStr ingredientName)])"

definition addIngredient_begin :: "string \<Rightarrow> 'e event list" where
  "addIngredient_begin ingredientName =
     [ConsoleLog (''Adding ingredient '' @ dquote @ ingredientName @ dquote @ '' via API...''),
      Request (addIngredient_request ingredientName)]"

definition addIngredient_end ::
  "string \<Rightarrow> 'e thrown + json \<Rightarrow> 'e event list \<times> ('e thrown + json)" where
  "addIngredient_end ingredientName answer =
     (let label = ''Error adding ingredient '' @ dquote @ ingredientName @ dquote @ '':''
      in case answer of
           Inl err \<Rightarrow> ([ConsoleError label err], Inl err)
         | Inr body \<Rightarrow>
             (case unwrap ''item'' ''Invalid response structure from addIngredient API'' body of
                Inl err \<Rightarrow> ([ConsoleError label err], Inl err)
              | Inr v \<Rightarrow> ([], Inr v)))"

definition addIngredient ::
  "'e transport \<Rightarrow> string \<Rightarrow> 'e event list \<times> ('e thrown + json)" where
  "addIngredient net ingredientName =
     (case addIngredient_end ingredientName (net (addIngredient_request ingredientName)) of
        (es, r) \<Rightarrow> (addIngredient_begin ingredientName @ es, r))"

definition generateRecipe_request :: "string list \<Rightarrow> request" where
  "generateRecipe_request ingredientNames =
     api_post ''/recipes/basket/generate-recipe''
       (JObj [(''items'', JArr (map JStr ingredientNames))])"

definition generateRecipe_begin :: "string list \<Rightarrow> 'e event list" where
  "generateRecipe_begin ingredientNames =
     [ConsoleLog (''Generating recipe with ingredients '' @ dquote
                  @ join '', '' ingredientNames @ dquote @ '' via API...''),
      Request (generateRecipe_request ingredientNames)]"

definition generateRecipe_end ::
  "'e thrown + json \<Rightarrow> 'e event list \<times> ('e thrown + json)" where
  "generateRecipe_end answer =
     (case answer of
        Inl err \<Rightarrow> ([ConsoleError ''Error generating recipe:'' err], Inl err)
      | Inr body \<Rightarrow>
          (case unwrap ''recipe'' ''Invalid response structure from generateRecipe API'' body of
             Inl err \<Rightarrow> ([ConsoleError ''Error generating recipe:'' err], Inl err)
           | Inr v \<Rightarrow> ([], Inr v)))"

definition generateRecipe ::
  "'e transport \<Rightarrow> string list \<Rightarrow> 'e event list \<times> ('e thrown + json)" where
  "generateRecipe net ingredientNames =
     (case generateRecipe_end (net (generateRecipe_request ingredientNames)) of
        (es, r) \<Rightarrow> (generateRecipe_begin ingredientNames @ es, r))"

section \<open>The basket component (RecipeGenerator.tsx)\<close>

text \<open>
  The two pieces of state of the component, \<^verbatim>\<open>useState(false)\<close> and
  \<^verbatim>\<open>useState<string | null>(null)\<close>. A call of a setter does not change what is
  on screen: React queues the value and applies the queue at its next render.
  \<open>run s es\<close> is the state the next render shows when \<open>s\<close> was the state and the
  setters in \<open>es\<close> have been called since, in that order. What is on screen between
  renders is kept apart, in the component below.
\<close>

record ui_state =
  isGenerating :: bool
  error :: "string option"

definition initial :: ui_state where
  "initial = \<lparr>isGenerating = False, error = None\<rparr>"

fun apply_event :: "ui_state \<Rightarrow> 'e event \<Rightarrow> ui_state" where
  "apply_event s (SetError e) = s\<lparr>error := e\<rparr>"
| "apply_event s (SetIsGenerating b) = s\<lparr>isGenerating := b\<rparr>"
| "apply_event s ev = s"

definition run :: "ui_state \<Rightarrow> 'e event list \<Rightarrow> ui_state" where
  "run s es = foldl apply_event s es"

text \<open>
  \<^verbatim>\<open>.filter((name): name is string => name !== null)\<close>: the entries that are not
  \<^verbatim>\<open>null\<close>, in order.
\<close>

fun not_null :: "string option list \<Rightarrow> string list" where
  "not_null [] = []"
| "not_null (None # xs) = not_null xs"
| "not_null (Some n # xs) = n # not_null xs"

text \<open>
  \<^verbatim>\<open>selectedIngredientIds.map(id => ...)\<close>: \<^verbatim>\<open>find\<close> gives the first entry of the
  catalog whose \<^verbatim>\<open>_id\<close> is strictly equal to the id, or \<^verbatim>\<open>undefined\<close>.
\<close>

definition selectedIngredientNames :: "string list \<Rightarrow> ingredient list \<Rightarrow> string list" where
  "selectedIngredientNames selectedIngredientIds ingredients =
     not_null
       (map (\<lambda>id. case find (\<lambda>i. ing_id i = id) ingredients of
                     Some ingredient \<Rightarrow> Some (ing_name ingredient)
                   | None \<Rightarrow> None)
            selectedIngredientIds)"

text \<open>
  \<^verbatim>\<open>handleGenerateRecipe\<close> up to its \<^verbatim>\<open>await\<close>: the effects so far, and the
  names \<^verbatim>\<open>generateRecipe\<close> is about to be called with (\<open>None\<close> when the handler
  has returned before).
\<close>

definition handleGenerateRecipe_begin ::
  "string list \<Rightarrow> ingredient list \<Rightarrow> 'e event list \<times> string list option" where
  "handleGenerateRecipe_begin selectedIngredientIds ingredients =
     (if length selectedIngredientIds = 0
      then ([SetError (Some ''Please select ingredients first.'')], None)
      else
        let names = selectedIngredientNames selectedIngredientIds ingredients;
            pre = [SetIsGenerating True, SetError None]
        in if length names = 0 \<and> length selectedIngredientIds > 0
           then (pre @ [SetError (Some ''Could not find names for selected ingredients.''),
                        SetIsGenerating False], None)
           else (pre
                 @ (if length names \<noteq> length selectedIngredientIds
                    then [ConsoleWarn ''Some selected ingredient IDs did not map to names.'']
                    else [])
                 @ [ConsoleLogNames ''Sending ingredient names to generateRecipe:'' names],
                 Some names))"

text \<open>
  The rest of the handler, once \<^verbatim>\<open>generateRecipe\<close> has settled: the callback or the
  \<^verbatim>\<open>catch\<close>, then the \<^verbatim>\<open>finally\<close>. (The callback \<^verbatim>\<open>onRecipeGenerated\<close> belongs
  to the parent and is taken to return.)
\<close>

definition error_text :: "'e thrown \<Rightarrow> string" where
  "error_text err =
     (case message err of
        Some m \<Rightarrow> if m \<noteq> [] then m else ''Failed to generate recipe. Please try again.''
      | None \<Rightarrow> ''Failed to generate recipe. Please try again.'')"

definition handleGenerateRecipe_end :: "'e thrown + json \<Rightarrow> 'e event list" where
  "handleGenerateRecipe_end settled =
     (case settled of
        Inr recipe \<Rightarrow> [OnRecipeGenerated recipe, SetIsGenerating False]
      | Inl err \<Rightarrow>
          [SetError (Some (error_text err)), ConsoleError ''Error generating recipe:'' err,
           SetIsGenerating False])"

text \<open>One whole run of the handler, from the click to the end of its promise.\<close>

definition handleGenerateRecipe ::
  "'e transport \<Rightarrow> string list \<Rightarrow> ingredient list \<Rightarrow> 'e event list" where
  "handleGenerateRecipe net selectedIngredientIds ingredients =
     (case handleGenerateRecipe_begin selectedIngredientIds ingredients of
        (es, None) \<Rightarrow> es
      | (es, Some names) \<Rightarrow>
          (case generateRecipe net names of
             (ces, settled) \<Rightarrow> es @ ces @ handleGenerateRecipe_end settled))"

subsection \<open>Renders and overlapping runs\<close>














text \<open>The events that write the in-progress flag.\<close>

fun sets_flag :: "'e event \<Rightarrow> bool" where
  "sets_flag (SetIsGenerating b) = True"
| "sets_flag e = False"

subsection \<open>Sample data\<close>

definition egg :: ingredient where
  "egg = \<lparr>ing_id = ''a'', ing_name = ''Egg'', createdAt = ''2024-01-01T00:00:00.000Z'',
           updatedAt = ''2024-01-01T00:00:00.000Z'', ing_v = Some 0\<rparr>"

definition milk :: ingredient where
  "milk = \<lparr>ing_id = ''b'', ing_name = ''Milk'', createdAt = ''2024-01-01T00:00:00.000Z'',
            updatedAt = ''2024-01-01T00:00:00.000Z'', ing_v = Some 0\<rparr>"

text \<open>A second entry under the id of \<open>egg\<close>.\<close>

definition duck_egg :: ingredient where
  "duck_egg = \<lparr>ing_id = ''a'', ing_name = ''Duck egg'', createdAt = ''2024-02-01T00:00:00.000Z'',
                updatedAt = ''2024-02-01T00:00:00.000Z'', ing_v = Some 0\<rparr>"

text \<open>A network that rejects every request, and one that answers each with one body.\<close>

definition offline :: "unit transport" where
  "offline r = Inl (Other (Some ''Network Error'') ())"

definition answering :: "json \<Rightarrow> unit transport" where
  "answering body r = Inr body"

definition omelette :: json where
  "omelette = JObj [(''_id'', JStr ''r1''), (''ingredients'', JArr [JStr ''Egg'']),
                    (''title'', JStr ''Omelette''), (''instructions'', JStr ''Whisk and fry.'')]"

section \<open>Properties\<close>


lemma selectedIngredientNames_Nil [simp]: "selectedIngredientNames [] cat = []"
  by (simp add: selectedIngredientNames_def)

lemma selectedIngredientNames_Cons:
  "selectedIngredientNames (x # xs) cat =
     (case find (\<lambda>i. ing_id i = x) cat of
        None \<Rightarrow> selectedIngredientNames xs cat
      | Some i \<Rightarrow> ing_name i # selectedIngredientNames xs cat)"
  by (simp add: selectedIngredientNames_def split: option.splits)

lemma selectedIngredientNames_append:
  "selectedIngredientNames (xs @ ys) cat =
     selectedIngredientNames xs cat @ selectedIngredientNames ys cat"
  by (induction xs) (auto simp: selectedIngredientNames_Cons split: option.splits)

lemma find_catalog_None: "(find (\<lambda>i. ing_id i = x) cat = None) = (\<forall>i\<in>set cat. ing_id i \<noteq> x)"
  by (auto simp: find_None_iff)

lemma selectedIngredientNames_filter:
  "selectedIngredientNames ids cat =
     map (\<lambda>x. ing_name (the (find (\<lambda>i. ing_id i = x) cat)))
         (filter (\<lambda>x. \<exists>i\<in>set cat. ing_id i = x) ids)"
proof (induction ids)
  case Nil
  show ?case by simp
next
  case (Cons x xs)
  show ?case
  proof (cases "find (\<lambda>i. ing_id i = x) cat")
    case None
    then have "\<not> (\<exists>i\<in>set cat. ing_id i = x)" by (simp add: find_catalog_None)
    with None Cons show ?thesis by (simp add: selectedIngredientNames_Cons)
  next
    case (Some i)
    then have "\<exists>i\<in>set cat. ing_id i = x" 
      using find_catalog_None[of x cat] by auto
    with Some Cons show ?thesis by (simp add: selectedIngredientNames_Cons)
  qed
qed

lemma selectedIngredientNames_empty_iff:
  "(selectedIngredientNames ids cat = []) = (\<forall>x\<in>set ids. \<forall>i\<in>set cat. ing_id i \<noteq> x)"
  by (auto simp: selectedIngredientNames_filter filter_empty_conv)

lemma length_selectedIngredientNames_eq_iff:
  "(length (selectedIngredientNames ids cat) = length ids) =
     (\<forall>x\<in>set ids. \<exists>i\<in>set cat. ing_id i = x)"
proof -
  have "(length (filter P ids) = length ids) = (\<forall>x\<in>set ids. P x)" for P :: "string \<Rightarrow> bool"
  proof (induction ids)
    case Nil
    show ?case by simp
  next
    case (Cons a ids)
    have "length (filter P ids) \<le> length ids" by simp
    then have "length (filter P ids) \<noteq> Suc (length ids)" by arith
    with Cons show ?case by simp
  qed
  then show ?thesis by (simp add: selectedIngredientNames_filter)
qed


lemma requests_append [simp]: "requests (xs @ ys) = requests xs @ requests ys"
  by (induction xs rule: requests.induct) auto

lemma warnings_append [simp]: "warnings (xs @ ys) = warnings xs @ warnings ys"
  by (induction xs rule: warnings.induct) auto

lemma delivered_append [simp]: "delivered (xs @ ys) = delivered xs @ delivered ys"
  by (induction xs rule: delivered.induct) auto

lemma requests_generateRecipe_end [simp]: "requests (fst (generateRecipe_end a)) = []"
  by (auto simp: generateRecipe_end_def split: sum.splits)

lemma requests_addIngredient_end [simp]: "requests (fst (addIngredient_end n a)) = []"
  by (auto simp: addIngredient_end_def Let_def split: sum.splits)

lemma requests_handleGenerateRecipe_end [simp]: "requests (handleGenerateRecipe_end a) = []"
  by (auto simp: handleGenerateRecipe_end_def split: sum.splits)

lemma requests_generateRecipe:
  "requests (fst (generateRecipe net names)) = [generateRecipe_request names]"
  by (simp add: generateRecipe_def generateRecipe_begin_def split: prod.splits)
    (metis fst_conv requests_generateRecipe_end)

lemma run_append: "run s (xs @ ys) = run (run s xs) ys"
  by (simp add: run_def)



lemma begin_empty:
  "handleGenerateRecipe_begin [] cat = ([SetError (Some ''Please select ingredients first.'')], None)"
  by (simp add: handleGenerateRecipe_begin_def)

lemma begin_unresolved:
  assumes "ids \<noteq> []" and "selectedIngredientNames ids cat = []"
  shows "handleGenerateRecipe_begin ids cat =
           ([SetIsGenerating True, SetError None,
             SetError (Some ''Could not find names for selected ingredients.''),
             SetIsGenerating False], None)"
  using assms by (simp add: handleGenerateRecipe_begin_def)

lemma begin_resolved:
  assumes "selectedIngredientNames ids cat \<noteq> []"
  shows "handleGenerateRecipe_begin ids cat =
           ([SetIsGenerating True, SetError None]
            @ (if length (selectedIngredientNames ids cat) \<noteq> length ids
               then [ConsoleWarn ''Some selected ingredient IDs did not map to names.'']
               else [])
            @ [ConsoleLogNames ''Sending ingredient names to generateRecipe:''
                 (selectedIngredientNames ids cat)],
            Some (selectedIngredientNames ids cat))"
proof -
  from assms have "ids \<noteq> []" by auto
  with assms show ?thesis by (simp add: handleGenerateRecipe_begin_def Let_def)
qed

lemma handle_resolved:
  assumes "selectedIngredientNames ids cat \<noteq> []"
  shows "handleGenerateRecipe net ids cat =
           fst (handleGenerateRecipe_begin ids cat)
           @ fst (generateRecipe net (selectedIngredientNames ids cat))
           @ handleGenerateRecipe_end (snd (generateRecipe net (selectedIngredientNames ids cat)))"
  by (simp add: handleGenerateRecipe_def begin_resolved[OF assms] split: prod.splits)

lemma requests_resolved:
  assumes "selectedIngredientNames ids cat \<noteq> []"
  shows "requests (handleGenerateRecipe net ids cat) =
           [generateRecipe_request (selectedIngredientNames ids cat)]"
  by (simp add: handle_resolved[OF assms] begin_resolved[OF assms] requests_generateRecipe)

lemma warnings_generateRecipe [simp]: "warnings (fst (generateRecipe net names)) = []"
  by (auto simp: generateRecipe_def generateRecipe_begin_def generateRecipe_end_def
      split: prod.splits sum.splits)

lemma warnings_handleGenerateRecipe_end [simp]: "warnings (handleGenerateRecipe_end a) = []"
  by (auto simp: handleGenerateRecipe_end_def split: sum.splits)

lemma generateRecipe_ok:
  assumes "net (generateRecipe_request names) = Inr body"
    and "get_prop body ''recipe'' = Some r" and "truthy r"
  shows "generateRecipe net names = (generateRecipe_begin names, Inr r)"
proof -
  from assms(2) have "truthy body" by (cases body) auto
  with assms show ?thesis
    by (simp add: generateRecipe_def generateRecipe_end_def unwrap_def)
qed

text \<open>
  C1. When the selection is not empty and every selected id is the id of some entry of
  the catalog, the handler sends exactly one request, the one \<open>generateRecipe\<close> makes for a
  list of names that is as long as the selection and holds, at each position, the name of
  the entry \<^verbatim>\<open>find\<close> returns for the id at that position.
\<close>
theorem C1_all_resolved:
  assumes "ids \<noteq> []" and "\<forall>x\<in>set ids. \<exists>i\<in>set cat. ing_id i = x"
  shows "\<exists>names. requests (handleGenerateRecipe net ids cat) = [generateRecipe_request names]
           \<and> length names = length ids
           \<and> list_all2 (\<lambda>x n. \<exists>i. find (\<lambda>i. ing_id i = x) cat = Some i \<and> n = ing_name i)
                ids names"
proof -
  let ?names = "selectedIngredientNames ids cat"
  from assms(2) have len: "length ?names = length ids"
    by (simp add: length_selectedIngredientNames_eq_iff)
  with assms(1) have "?names \<noteq> []" by auto
  then have req: "requests (handleGenerateRecipe net ids cat) = [generateRecipe_request ?names]"
    by (rule requests_resolved)
  from assms(2)
  have "list_all2 (\<lambda>x n. \<exists>i. find (\<lambda>i. ing_id i = x) cat = Some i \<and> n = ing_name i) ids ?names"
  proof (induction ids)
    case Nil
    show ?case by simp
  next
    case (Cons x xs)
    from Cons.prems have "find (\<lambda>i. ing_id i = x) cat \<noteq> None"
      by (simp add: find_catalog_None)
    then obtain i where "find (\<lambda>i. ing_id i = x) cat = Some i" by auto
    with Cons show ?case by (simp add: selectedIngredientNames_Cons)
  qed
  with req len show ?thesis by blast
qed

theorem C1_all_resolved_witness:
  "requests (handleGenerateRecipe offline [''a'', ''b''] [egg, milk])
     = [generateRecipe_request [''Egg'', ''Milk'']]
   \<and> (\<exists>names. requests (handleGenerateRecipe offline [''a'', ''b''] [egg, milk])
                 = [generateRecipe_request names] \<and> length names = 2)"
proof -
  have "requests (handleGenerateRecipe offline [''a'', ''b''] [egg, milk])
          = [generateRecipe_request [''Egg'', ''Milk'']]"
    by (simp add: requests_resolved selectedIngredientNames_Cons egg_def milk_def)
  moreover have "\<exists>names. requests (handleGenerateRecipe offline [''a'', ''b''] [egg, milk])
                 = [generateRecipe_request names] \<and> length names = 2"
    using C1_all_resolved [of "[''a'', ''b'']" "[egg, milk]" offline]
    by (auto simp: egg_def milk_def)
  ultimately show ?thesis by simp
qed


text \<open>
  C2 (amended). With an empty selection the handler does one thing: it sets the error
  state to "Please select ingredients first.". It sends no request, delivers no recipe and
  never writes the in-progress flag. The message is not "no ingredients selected", and
  nothing is thrown: the failure is the error state.
\<close>
theorem C2_empty_selection:
  "handleGenerateRecipe net [] cat = [SetError (Some ''Please select ingredients first.'')]
   \<and> requests (handleGenerateRecipe net [] cat) = []
   \<and> delivered (handleGenerateRecipe net [] cat) = []
   \<and> SetIsGenerating b \<notin> set (handleGenerateRecipe net [] cat)
   \<and> error (run s (handleGenerateRecipe net [] cat)) = Some ''Please select ingredients first.''
   \<and> isGenerating (run s (handleGenerateRecipe net [] cat)) = isGenerating s"
  by (simp add: handleGenerateRecipe_def begin_empty run_def)

theorem C2_empty_selection_witness:
  "handleGenerateRecipe offline [] [egg] = [SetError (Some ''Please select ingredients first.'')]
   \<and> requests (handleGenerateRecipe offline [] [egg]) = []
   \<and> error (run initial (handleGenerateRecipe offline [] [egg]))
       = Some ''Please select ingredients first.''
   \<and> isGenerating (run initial (handleGenerateRecipe offline [] [egg])) = False"
  using C2_empty_selection [of offline "[egg]" True initial]
  by (simp add: initial_def run_def)

theorem C2_message_counterexample:
  "error (run initial (handleGenerateRecipe offline [] [egg])) \<noteq> Some ''no ingredients selected''"
  by (simp add: handleGenerateRecipe_def begin_empty run_def)

text \<open>
  C3 (amended). When the selection is not empty and no selected id is the id of an entry
  of the catalog, the handler sets the flag, clears the error, sets the error state to
  "Could not find names for selected ingredients.", clears the flag and returns without
  sending a request. The message is not "no resolvable ingredient names".
\<close>
theorem C3_nothing_resolved:
  assumes "ids \<noteq> []" and "\<forall>x\<in>set ids. \<forall>i\<in>set cat. ing_id i \<noteq> x"
  shows "handleGenerateRecipe net ids cat =
           [SetIsGenerating True, SetError None,
            SetError (Some ''Could not find names for selected ingredients.''),
            SetIsGenerating False]
         \<and> requests (handleGenerateRecipe net ids cat) = []
         \<and> delivered (handleGenerateRecipe net ids cat) = []
         \<and> error (run s (handleGenerateRecipe net ids cat))
             = Some ''Could not find names for selected ingredients.''
         \<and> isGenerating (run s (handleGenerateRecipe net ids cat)) = False"
proof -
  from assms(2) have "selectedIngredientNames ids cat = []"
    by (simp add: selectedIngredientNames_empty_iff)
  with assms(1) show ?thesis
    by (simp add: handleGenerateRecipe_def begin_unresolved run_def)
qed

theorem C3_nothing_resolved_witness:
  "requests (handleGenerateRecipe offline [''x'', ''y''] [egg, milk]) = []
   \<and> error (run initial (handleGenerateRecipe offline [''x'', ''y''] [egg, milk]))
       = Some ''Could not find names for selected ingredients.''
   \<and> isGenerating (run initial (handleGenerateRecipe offline [''x'', ''y''] [egg, milk])) = False"
  using C3_nothing_resolved [of "[''x'', ''y'']" "[egg, milk]" offline initial]
  by (simp add: egg_def milk_def run_def)

theorem C3_message_counterexample:
  "error (run initial (handleGenerateRecipe offline [''x''] [egg]))
     \<noteq> Some ''no resolvable ingredient names''"
  by (simp add: handleGenerateRecipe_def begin_unresolved selectedIngredientNames_Cons
      egg_def run_def)

text \<open>
  C4. When some selected id is in the catalog and some is not, the handler sends exactly
  one request, for the names of the selected ids that are in the catalog, in the order of
  the selection; it emits exactly one warning; and the warning is no failure: when the
  backend answers with an envelope that holds a recipe, that recipe is delivered and the
  error state is empty at the end.
\<close>
theorem C4_partly_resolved:
  assumes "\<exists>x\<in>set ids. \<exists>i\<in>set cat. ing_id i = x"
    and "\<exists>x\<in>set ids. \<forall>i\<in>set cat. ing_id i \<noteq> x"
  shows "requests (handleGenerateRecipe net ids cat) =
           [generateRecipe_request
              (map (\<lambda>x. ing_name (the (find (\<lambda>i. ing_id i = x) cat)))
                   (filter (\<lambda>x. \<exists>i\<in>set cat. ing_id i = x) ids))]
         \<and> warnings (handleGenerateRecipe net ids cat) =
             [''Some selected ingredient IDs did not map to names.'']
         \<and> (\<forall>body r. net (generateRecipe_request (selectedIngredientNames ids cat)) = Inr body
                \<and> get_prop body ''recipe'' = Some r \<and> truthy r
              \<longrightarrow> delivered (handleGenerateRecipe net ids cat) = [r]
                  \<and> error (run s (handleGenerateRecipe net ids cat)) = None)"
proof -
  let ?names = "selectedIngredientNames ids cat"
  from assms(1) have ne: "?names \<noteq> []"
    by (auto simp: selectedIngredientNames_empty_iff)
  from assms(2) have len: "length ?names \<noteq> length ids"
    by (auto simp: length_selectedIngredientNames_eq_iff)
  have req: "requests (handleGenerateRecipe net ids cat) = [generateRecipe_request ?names]"
    using ne by (rule requests_resolved)
  have warn: "warnings (handleGenerateRecipe net ids cat) =
                [''Some selected ingredient IDs did not map to names.'']"
    using len by (simp add: handle_resolved[OF ne] begin_resolved[OF ne])
  have ok: "delivered (handleGenerateRecipe net ids cat) = [r]
            \<and> error (run s (handleGenerateRecipe net ids cat)) = None"
    if "net (generateRecipe_request ?names) = Inr body"
      and "get_prop body ''recipe'' = Some r" and "truthy r" for body r
    using len generateRecipe_ok [of net ?names body r, OF that]
    by (simp add: handle_resolved[OF ne] begin_resolved[OF ne]
        generateRecipe_begin_def handleGenerateRecipe_end_def run_def)
  from req warn ok show ?thesis
    by (simp add: selectedIngredientNames_filter [symmetric])
qed

theorem C4_partly_resolved_witness:
  "requests (handleGenerateRecipe (answering (JObj [(''message'', JStr ''ok''),
                (''recipe'', JObj [(''title'', JStr ''Omelette'')])])) [''a'', ''x''] [egg])
     = [generateRecipe_request [''Egg'']]
   \<and> warnings (handleGenerateRecipe (answering (JObj [(''message'', JStr ''ok''),
                (''recipe'', JObj [(''title'', JStr ''Omelette'')])])) [''a'', ''x''] [egg])
     = [''Some selected ingredient IDs did not map to names.'']
   \<and> delivered (handleGenerateRecipe (answering (JObj [(''message'', JStr ''ok''),
                (''recipe'', JObj [(''title'', JStr ''Omelette'')])])) [''a'', ''x''] [egg])
     = [JObj [(''title'', JStr ''Omelette'')]]
   \<and> error (run initial (handleGenerateRecipe (answering (JObj [(''message'', JStr ''ok''),
                (''recipe'', JObj [(''title'', JStr ''Omelette'')])])) [''a'', ''x''] [egg]))
     = None"
  using C4_partly_resolved [of "[''a'', ''x'']" "[egg]"
      "answering (JObj [(''message'', JStr ''ok''),
                (''recipe'', JObj [(''title'', JStr ''Omelette'')])])" initial]
  by (simp add: egg_def answering_def selectedIngredientNames_Cons run_def)



lemma quiet_generateRecipe_begin: "\<forall>e\<in>set (generateRecipe_begin names). \<not> sets_flag e"
  by (simp add: generateRecipe_begin_def)

lemma quiet_generateRecipe_end: "\<forall>e\<in>set (fst (generateRecipe_end a)). \<not> sets_flag e"
  by (auto simp: generateRecipe_end_def split: sum.splits)

lemma quiet_generateRecipe: "\<forall>e\<in>set (fst (generateRecipe net names)). \<not> sets_flag e"
  using quiet_generateRecipe_begin [of names]
    quiet_generateRecipe_end [of "net (generateRecipe_request names)"]
  by (auto simp: generateRecipe_def split: prod.splits)


lemma unwrap_result:
  "unwrap field msg body =
     (case get_prop body field of
        None \<Rightarrow> Inl (Error msg)
      | Some v \<Rightarrow> if truthy v then Inr v else Inl (Error msg))"
  by (cases body) (auto simp: unwrap_def split: option.splits)

lemma snd_addIngredient:
  "snd (addIngredient net n) =
     (case net (addIngredient_request n) of
        Inl err \<Rightarrow> Inl err
      | Inr body \<Rightarrow> unwrap ''item'' ''Invalid response structure from addIngredient API'' body)"
  by (auto simp: addIngredient_def addIngredient_end_def Let_def split: prod.splits sum.splits)

lemma snd_generateRecipe:
  "snd (generateRecipe net names) =
     (case net (generateRecipe_request names) of
        Inl err \<Rightarrow> Inl err
      | Inr body \<Rightarrow> unwrap ''recipe'' ''Invalid response structure from generateRecipe API'' body)"
  by (auto simp: generateRecipe_def generateRecipe_end_def split: prod.splits sum.splits)

text \<open>
  C6 (amended). Given a response with a successful status: when the body has no field
  \<^verbatim>\<open>item\<close> (or is not an object at all), \<open>addIngredient\<close> throws the \<^verbatim>\<open>Error\<close>
  "Invalid response structure from addIngredient API"; when the field is there with a
  truthy value, that value is returned as it is; when the field is there with a falsy
  value (\<^verbatim>\<open>null\<close>, \<^verbatim>\<open>false\<close>, \<^verbatim>\<open>0\<close>, the empty string), the same error is thrown.
  Likewise for \<open>generateRecipe\<close> and the field \<^verbatim>\<open>recipe\<close>.
\<close>
theorem C6_envelope_checked:
  assumes "net (addIngredient_request n) = Inr a"
    and "net' (generateRecipe_request names) = Inr g"
  shows "(get_prop a ''item'' = None \<longrightarrow>
            snd (addIngredient net n)
              = Inl (Error ''Invalid response structure from addIngredient API''))
       \<and> (\<forall>v. get_prop a ''item'' = Some v \<and> truthy v \<longrightarrow> snd (addIngredient net n) = Inr v)
       \<and> (\<forall>v. get_prop a ''item'' = Some v \<and> \<not> truthy v \<longrightarrow>
            snd (addIngredient net n)
              = Inl (Error ''Invalid response structure from addIngredient API''))
       \<and> (get_prop g ''recipe'' = None \<longrightarrow>
            snd (generateRecipe net' names)
              = Inl (Error ''Invalid response structure from generateRecipe API''))
       \<and> (\<forall>v. get_prop g ''recipe'' = Some v \<and> truthy v \<longrightarrow>
            snd (generateRecipe net' names) = Inr v)
       \<and> (\<forall>v. get_prop g ''recipe'' = Some v \<and> \<not> truthy v \<longrightarrow>
            snd (generateRecipe net' names)
              = Inl (Error ''Invalid response structure from generateRecipe API''))"
  using assms by (simp add: snd_addIngredient snd_generateRecipe unwrap_result)

theorem C6_envelope_checked_witness:
  "snd (addIngredient (answering (JObj [(''message'', JStr ''Item added''),
          (''item'', JObj [(''_id'', JStr ''a''), (''name'', JStr ''Egg'')])])) ''Egg'')
     = Inr (JObj [(''_id'', JStr ''a''), (''name'', JStr ''Egg'')])
   \<and> snd (generateRecipe (answering (JObj [(''message'', JStr ''done'')])) [''Egg''])
     = Inl (Error ''Invalid response structure from generateRecipe API'')"
  using C6_envelope_checked [of
      "answering (JObj [(''message'', JStr ''Item added''),
          (''item'', JObj [(''_id'', JStr ''a''), (''name'', JStr ''Egg'')])])"
      "''Egg''"
      "JObj [(''message'', JStr ''Item added''),
          (''item'', JObj [(''_id'', JStr ''a''), (''name'', JStr ''Egg'')])]"
      "answering (JObj [(''message'', JStr ''done'')])" "[''Egg'']"
      "JObj [(''message'', JStr ''done'')]"]
  by (simp add: answering_def)

theorem C6_present_but_null_counterexample:
  "get_prop (JObj [(''message'', JStr ''Item added''), (''item'', JNull)]) ''item'' = Some JNull
   \<and> snd (addIngredient (answering (JObj [(''message'', JStr ''Item added''), (''item'', JNull)]))
            ''Egg'')
       \<noteq> Inr JNull
   \<and> snd (addIngredient (answering (JObj [(''message'', JStr ''Item added''), (''item'', JNull)]))
            ''Egg'')
       = Inl (Error ''Invalid response structure from addIngredient API'')"
  by (simp add: snd_addIngredient unwrap_result answering_def)

text \<open>
  C8. For every list of names \<open>generateRecipe\<close> sends exactly one request: a POST to
  \<^verbatim>\<open>/recipes/basket/generate-recipe\<close>, under a base URL that ends with \<^verbatim>\<open>/api/\<close>, with
  the body \<^verbatim>\<open>{items: names}\<close>. For every name \<open>addIngredient\<close> sends exactly one
  request: a POST to \<^verbatim>\<open>/items/add\<close> with the body \<^verbatim>\<open>{item: name}\<close>.
\<close>
theorem C8_post_requests:
  "requests (fst (generateRecipe net names)) = [generateRecipe_request names]
   \<and> req_method (generateRecipe_request names) = POST
   \<and> req_url (generateRecipe_request names) = ''/recipes/basket/generate-recipe''
   \<and> req_data (generateRecipe_request names) = Some (JObj [(''items'', JArr (map JStr names))])
   \<and> (\<exists>origin. req_baseURL (generateRecipe_request names) = origin @ ''/api/'')
   \<and> requests (fst (addIngredient net n)) = [addIngredient_request n]
   \<and> req_method (addIngredient_request n) = POST
   \<and> req_url (addIngredient_request n) = ''/items/add''
   \<and> req_data (addIngredient_request n) = Some (JObj [(''item'', JStr n)])
   \<and> (\<exists>origin. req_baseURL (addIngredient_request n) = origin @ ''/api/'')"
proof -
  have base: "\<exists>origin. API_BASE_URL = origin @ ''/api/''"
    by (rule exI [of _ "''https://recipe-generator-backend-vqb7.onrender.com''"])
      (simp add: API_BASE_URL_def)
  have add: "requests (fst (addIngredient net n)) = [addIngredient_request n]"
    using requests_addIngredient_end [of n "net (addIngredient_request n)"]
    by (cases "addIngredient_end n (net (addIngredient_request n))")
      (simp add: addIngredient_def addIngredient_begin_def)
  have b1: "\<exists>origin. req_baseURL (generateRecipe_request names) = origin @ ''/api/''"
    using base by (simp add: generateRecipe_request_def api_post_def)
  have b2: "\<exists>origin. req_baseURL (addIngredient_request n) = origin @ ''/api/''"
    using base by (simp add: addIngredient_request_def api_post_def)
  show ?thesis
    using add b1 b2
    by (simp add: requests_generateRecipe)
      (simp add: generateRecipe_request_def addIngredient_request_def api_post_def)
qed

theorem C8_post_requests_witness:
  "requests (fst (generateRecipe offline [''Egg'', ''Milk'']))
     = [\<lparr>req_method = POST, req_baseURL = API_BASE_URL,
         req_url = ''/recipes/basket/generate-recipe'',
         req_headers = [(''Content-Type'', ''application/json'')],
         req_data = Some (JObj [(''items'', JArr [JStr ''Egg'', JStr ''Milk''])])\<rparr>]
   \<and> requests (fst (addIngredient offline ''Salt''))
     = [\<lparr>req_method = POST, req_baseURL = API_BASE_URL, req_url = ''/items/add'',
         req_headers = [(''Content-Type'', ''application/json'')],
         req_data = Some (JObj [(''item'', JStr ''Salt'')])\<rparr>]"
  using C8_post_requests [of offline "[''Egg'', ''Milk'']" "''Salt''"]
  by (simp add: generateRecipe_request_def addIngredient_request_def api_post_def)

text \<open>
  C9. \<open>fetchIngredients\<close> sends one GET to \<^verbatim>\<open>/items\<close> and \<open>fetchRecipeHistory\<close> one
  GET to \<^verbatim>\<open>/recipes/history\<close>, neither with a body, and each settles exactly as the
  network did: the body of the response returned as it is, or the very value the request
  was rejected with thrown again.
\<close>
theorem C9_list_endpoints_pass_through:
  "snd (fetchIngredients net) = net (api_get ''/items'')
   \<and> requests (fst (fetchIngredients net)) = [api_get ''/items'']
   \<and> snd (fetchRecipeHistory net) = net (api_get ''/recipes/history'')
   \<and> requests (fst (fetchRecipeHistory net)) = [api_get ''/recipes/history'']
   \<and> req_method (api_get path) = GET \<and> req_url (api_get path) = path
   \<and> req_data (api_get path) = None"
  by (auto simp: fetchIngredients_def fetchRecipeHistory_def api_get_def Let_def split: sum.splits)


theorem C9_list_endpoints_pass_through_witness:
  "snd (fetchIngredients offline) = Inl (Other (Some ''Network Error'') ())
   \<and> snd (fetchRecipeHistory (answering (JArr [omelette]))) = Inr (JArr [omelette])
   \<and> requests (fst (fetchIngredients offline))
       = [\<lparr>req_method = GET, req_baseURL = API_BASE_URL, req_url = ''/items'',
           req_headers = [(''Content-Type'', ''application/json'')], req_data = None\<rparr>]"
  using C9_list_endpoints_pass_through [of offline "''/items''"]
    C9_list_endpoints_pass_through [of "answering (JArr [omelette])" "''/items''"]
  by (simp add: offline_def answering_def api_get_def)


lemma find_first_entry:
  assumes "\<forall>j\<in>set pre. ing_id j \<noteq> x" and "ing_id entry = x"
  shows "find (\<lambda>i. ing_id i = x) (pre @ entry # post) = Some entry"
  using assms by (induction pre) auto

lemma selectedIngredientNames_replicate:
  assumes "find (\<lambda>i. ing_id i = x) cat = Some entry"
  shows "selectedIngredientNames (replicate k x) cat = replicate k (ing_name entry)"
  using assms by (induction k) (auto simp: selectedIngredientNames_Cons)

text \<open>
  C10. When \<open>entry\<close> is the first entry of the catalog with its id, every occurrence of that
  id in the selection puts the name of \<open>entry\<close> at its place in the list of names sent,
  whatever stands before and after it in the selection and whatever follows \<open>entry\<close> in the
  catalog; a selection that repeats the id \<open>k + 1\<close> times sends the name \<open>k + 1\<close> times.
\<close>
theorem C10_every_occurrence_first_entry:
  assumes "cat = pre @ entry # post" and "\<forall>j\<in>set pre. ing_id j \<noteq> ing_id entry"
  shows "requests (handleGenerateRecipe net (xs @ ing_id entry # ys) cat) =
           [generateRecipe_request
              (selectedIngredientNames xs cat @ ing_name entry # selectedIngredientNames ys cat)]
       \<and> requests (handleGenerateRecipe net (replicate (Suc k) (ing_id entry)) cat) =
           [generateRecipe_request (replicate (Suc k) (ing_name entry))]"
proof -
  from assms have f: "find (\<lambda>i. ing_id i = ing_id entry) cat = Some entry"
    by (simp add: find_first_entry)
  then have one: "selectedIngredientNames (xs @ ing_id entry # ys) cat =
      selectedIngredientNames xs cat @ ing_name entry # selectedIngredientNames ys cat"
    by (simp add: selectedIngredientNames_append selectedIngredientNames_Cons)
  then have "selectedIngredientNames (xs @ ing_id entry # ys) cat \<noteq> []" by simp
  then have a: "requests (handleGenerateRecipe net (xs @ ing_id entry # ys) cat) =
      [generateRecipe_request (selectedIngredientNames (xs @ ing_id entry # ys) cat)]"
    by (rule requests_resolved)
  from f have many: "selectedIngredientNames (replicate (Suc k) (ing_id entry)) cat =
      replicate (Suc k) (ing_name entry)"
    by (rule selectedIngredientNames_replicate)
  then have "selectedIngredientNames (replicate (Suc k) (ing_id entry)) cat \<noteq> []" by simp
  then have b: "requests (handleGenerateRecipe net (replicate (Suc k) (ing_id entry)) cat) =
      [generateRecipe_request (selectedIngredientNames (replicate (Suc k) (ing_id entry)) cat)]"
    by (rule requests_resolved)
  from a b show ?thesis by (simp only: one many)
qed

theorem C10_every_occurrence_first_entry_witness:
  "requests (handleGenerateRecipe offline [''a'', ''b'', ''a''] [milk, egg, duck_egg])
     = [generateRecipe_request [''Egg'', ''Milk'', ''Egg'']]
   \<and> requests (handleGenerateRecipe offline [''a'', ''a''] [milk, egg, duck_egg])
     = [generateRecipe_request [''Egg'', ''Egg'']]"
proof -
  have cat: "[milk, egg, duck_egg] = [milk] @ egg # [duck_egg]" by simp
  have pre: "\<forall>j\<in>set [milk]. ing_id j \<noteq> ing_id egg" by (simp add: milk_def egg_def)
  have n: "selectedIngredientNames [''b''] [milk, egg, duck_egg] = [''Milk'']"
    by (simp add: selectedIngredientNames_Cons milk_def)
  from C10_every_occurrence_first_entry [OF cat pre, of offline "[''a'', ''b'']" "[]" 1]
  show ?thesis
    by (simp add: egg_def selectedIngredientNames_Cons milk_def)
qed

























end
